theory Spec2Isabelle
  imports Main "HOL-Library.Word"
begin

section \<open>Account operations of the chain protocol (protocol/account.hpp)\<close>

subsection \<open>Primitive types used by the header\<close>

text \<open>
  The header includes \<open>base.hpp\<close>, \<open>buyback.hpp\<close>, \<open>ext.hpp\<close>, \<open>special_authority.hpp\<close>,
  \<open>types.hpp\<close> and \<open>vote.hpp\<close>. Their types are used here as field types only. The types
  whose content the header never looks at are type parameters of the records below:
  \<open>'pk\<close> for \<open>public_key_type\<close>, \<open>'vote\<close> for \<open>vote_id_type\<close>, \<open>'auth\<close> for \<open>authority\<close>
  and \<open>'sa\<close> for \<open>special_authority\<close>.
\<close>

text \<open>Modelled from the spec: \<open>account_id_type\<close> (types.hpp) is an account identifier;
  the header only stores, returns and inserts it, so its instance number stands for it.\<close>
type_synonym account_id_type = nat

text \<open>Modelled from the spec: \<open>asset_id_type\<close> (types.hpp), the currency of an asset amount.\<close>
type_synonym asset_id_type = nat

text \<open>Modelled from the spec: \<open>share_type\<close> (types.hpp) is a 64-bit signed amount; it is read
  through \<open>sint\<close>.\<close>
type_synonym share_type = "64 word"

text \<open>Modelled from the spec: \<open>asset\<close> (asset.hpp) is an amount of a currency; the header
  reads \<open>fee.amount\<close>.\<close>
record asset =
  amount :: share_type
  asset_id :: asset_id_type

text \<open>Modelled from the spec: \<open>void_t\<close> (types.hpp), the null placeholder of an extension.\<close>
datatype void_t = void_t

text \<open>Modelled from the spec: \<open>extensions_type\<close> (base.hpp) is the generic extension slot, a
  set of future extensions of which \<open>void_t\<close> is the only alternative; default-constructed
  it is empty.\<close>
type_synonym extensions_type = "void_t set"

text \<open>Modelled from the spec: \<open>buyback_account_options\<close> (buyback.hpp) is the buyback
  linkage of an account; \<open>asset_to_buy_issuer\<close> is the member the header reads.\<close>
record buyback_account_options =
  asset_to_buy_issuer :: account_id_type

text \<open>Modelled from the spec: a failed \<open>FC_ASSERT\<close> (the macro is declared outside the header)
  aborts \<open>validate()\<close> with a validation error carrying the asserted expression.\<close>
datatype error = ValidationError string

definition FC_ASSERT :: "bool \<Rightarrow> string \<Rightarrow> error + unit" where
  "FC_ASSERT c expr = (if c then Inr () else Inl (ValidationError expr))"

text \<open>Statement sequencing in a function that may throw: the second statement runs only
  when the first returned.\<close>
definition and_then :: "error + unit \<Rightarrow> error + unit \<Rightarrow> error + unit" where
  "and_then r s = (case r of Inl e \<Rightarrow> Inl e | Inr u \<Rightarrow> s)"

subsection \<open>The structures\<close>

record ('pk, 'vote) account_options =
  memo_key :: 'pk
  voting_account :: account_id_type
  num_witness :: "16 word"
  num_committee :: "16 word"
  votes :: "'vote set"
  extensions :: extensions_type

text \<open>\<open>account_create_operation::ext\<close>\<close>
record 'sa ext =
  null_ext :: "void_t option"
  owner_special_authority :: "'sa option"
  active_special_authority :: "'sa option"
  buyback_options :: "buyback_account_options option"

text \<open>Modelled from the spec: \<open>extension<T>\<close> (ext.hpp) holds an extension record; the
  header reads it through the member \<open>value\<close>.\<close>
record 'e extension =
  "value" :: 'e

text \<open>A \<open>fee_parameters_type\<close> declared as \<open>struct fee_parameters_type {}\<close> has no
  member, so it has one value.\<close>
type_synonym empty_fee_parameters_type = unit

record ('pk, 'vote, 'auth, 'sa) account_create_operation =
  fee :: asset
  kind :: "8 word"
  registrar :: account_id_type
  referrer :: account_id_type
  referrer_percent :: "16 word"
  name :: string
  owner :: 'auth
  active :: 'auth
  options :: "('pk, 'vote) account_options"
  extensions :: "'sa ext extension"

record 'sa ext_account_update_operation =
  null_ext :: "void_t option"
  owner_special_authority :: "'sa option"
  active_special_authority :: "'sa option"

record ('pk, 'vote, 'auth, 'sa) account_update_operation =
  fee :: asset
  account :: account_id_type
  owner :: "'auth option"
  active :: "'auth option"
  new_options :: "('pk, 'vote) account_options option"
  extensions :: "'sa ext_account_update_operation extension"

record account_whitelist_operation =
  fee :: asset
  authorizing_account :: account_id_type
  account_to_list :: account_id_type
  new_listing :: "8 word"
  extensions :: extensions_type

record account_upgrade_operation =
  fee :: asset
  account_to_upgrade :: account_id_type
  upgrade_to_lifetime_member :: bool
  extensions :: extensions_type

record account_transfer_operation =
  fee :: asset
  account_id :: account_id_type
  new_owner :: account_id_type
  extensions :: extensions_type

record tether_accounts_operation =
  fee :: asset
  wallet_account :: account_id_type
  vault_account :: account_id_type
  extensions :: extensions_type

record 'auth change_public_keys_operation =
  fee :: asset
  account :: account_id_type
  active :: "'auth option"
  owner :: "'auth option"
  extensions :: extensions_type

record set_roll_back_enabled_operation =
  fee :: asset
  account :: account_id_type
  roll_back_enabled :: bool
  extensions :: extensions_type

record roll_back_public_keys_operation =
  fee :: asset
  authority :: account_id_type
  account :: account_id_type
  extensions :: extensions_type

record upgrade_account_cycles_operation =
  fee :: asset
  account :: account_id_type
  description :: string
  extensions :: extensions_type

record set_starting_cycle_asset_amount_operation =
  fee :: asset
  issuer :: account_id_type
  new_amount :: "32 word"
  extensions :: extensions_type

record set_chain_authority_operation =
  fee :: asset
  issuer :: account_id_type
  account :: account_id_type
  kind :: string
  extensions :: extensions_type

subsection \<open>The member functions defined in the header\<close>

text \<open>A function taking \<open>flat_set<account_id_type>& a\<close> is modelled as a function from the
  set before the call to the set after it.\<close>

paragraph \<open>account_create_operation\<close>

definition account_create_operation_fee_payer ::
  "('pk, 'vote, 'auth, 'sa) account_create_operation \<Rightarrow> account_id_type" where
  "account_create_operation_fee_payer op = registrar op"

definition account_create_operation_calculate_fee ::
  "('pk, 'vote, 'auth, 'sa) account_create_operation \<Rightarrow> empty_fee_parameters_type \<Rightarrow> share_type" where
  "account_create_operation_calculate_fee op k = 0"

definition account_create_operation_get_required_active_authorities ::
  "('pk, 'vote, 'auth, 'sa) account_create_operation \<Rightarrow> account_id_type set \<Rightarrow> account_id_type set" where
  "account_create_operation_get_required_active_authorities op a =
     (let a1 = insert (registrar op) a in
      case buyback_options (value (account_create_operation.extensions op)) of
        Some b \<Rightarrow> insert (asset_to_buy_issuer b) a1
      | None \<Rightarrow> a1)"

paragraph \<open>account_update_operation\<close>

definition account_update_operation_fee_payer ::
  "('pk, 'vote, 'auth, 'sa) account_update_operation \<Rightarrow> account_id_type" where
  "account_update_operation_fee_payer op = account_update_operation.account op"

definition account_update_operation_is_owner_update ::
  "('pk, 'vote, 'auth, 'sa) account_update_operation \<Rightarrow> bool" where
  "account_update_operation_is_owner_update op =
     (account_update_operation.owner op \<noteq> None
      \<or> ext_account_update_operation.owner_special_authority
           (value (account_update_operation.extensions op)) \<noteq> None)"

definition account_update_operation_get_required_owner_authorities ::
  "('pk, 'vote, 'auth, 'sa) account_update_operation \<Rightarrow> account_id_type set \<Rightarrow> account_id_type set" where
  "account_update_operation_get_required_owner_authorities op a =
     (if account_update_operation_is_owner_update op
      then insert (account_update_operation.account op) a else a)"

definition account_update_operation_get_required_active_authorities ::
  "('pk, 'vote, 'auth, 'sa) account_update_operation \<Rightarrow> account_id_type set \<Rightarrow> account_id_type set" where
  "account_update_operation_get_required_active_authorities op a =
     (if \<not> account_update_operation_is_owner_update op
      then insert (account_update_operation.account op) a else a)"

paragraph \<open>account_whitelist_operation\<close>

definition account_whitelist_operation_fee_payer :: "account_whitelist_operation \<Rightarrow> account_id_type" where
  "account_whitelist_operation_fee_payer op = authorizing_account op"

definition account_whitelist_operation_validate :: "account_whitelist_operation \<Rightarrow> error + unit" where
  "account_whitelist_operation_validate op =
     and_then (FC_ASSERT (0 \<le> sint (amount (account_whitelist_operation.fee op))) ''fee.amount >= 0'')
              (FC_ASSERT (new_listing op < 0x4) ''new_listing < 0x4'')"

paragraph \<open>account_upgrade_operation and account_transfer_operation\<close>

definition account_upgrade_operation_fee_payer :: "account_upgrade_operation \<Rightarrow> account_id_type" where
  "account_upgrade_operation_fee_payer op = account_to_upgrade op"

definition account_transfer_operation_fee_payer :: "account_transfer_operation \<Rightarrow> account_id_type" where
  "account_transfer_operation_fee_payer op = account_id op"

paragraph \<open>tether_accounts_operation\<close>

definition tether_accounts_operation_fee_payer :: "tether_accounts_operation \<Rightarrow> account_id_type" where
  "tether_accounts_operation_fee_payer op = wallet_account op"

definition tether_accounts_operation_calculate_fee ::
  "tether_accounts_operation \<Rightarrow> empty_fee_parameters_type \<Rightarrow> share_type" where
  "tether_accounts_operation_calculate_fee op k = 0"

definition tether_accounts_operation_get_required_active_authorities ::
  "tether_accounts_operation \<Rightarrow> account_id_type set \<Rightarrow> account_id_type set" where
  "tether_accounts_operation_get_required_active_authorities op a =
     insert (vault_account op) (insert (wallet_account op) a)"

paragraph \<open>change_public_keys_operation\<close>

definition change_public_keys_operation_is_owner_update :: "'auth change_public_keys_operation \<Rightarrow> bool" where
  "change_public_keys_operation_is_owner_update op = (change_public_keys_operation.owner op \<noteq> None)"

definition change_public_keys_operation_get_required_owner_authorities ::
  "'auth change_public_keys_operation \<Rightarrow> account_id_type set \<Rightarrow> account_id_type set" where
  "change_public_keys_operation_get_required_owner_authorities op a =
     (if change_public_keys_operation_is_owner_update op
      then insert (change_public_keys_operation.account op) a else a)"

definition change_public_keys_operation_get_required_active_authorities ::
  "'auth change_public_keys_operation \<Rightarrow> account_id_type set \<Rightarrow> account_id_type set" where
  "change_public_keys_operation_get_required_active_authorities op a =
     (if \<not> change_public_keys_operation_is_owner_update op
      then insert (change_public_keys_operation.account op) a else a)"

definition change_public_keys_operation_fee_payer :: "'auth change_public_keys_operation \<Rightarrow> account_id_type" where
  "change_public_keys_operation_fee_payer op = change_public_keys_operation.account op"

definition change_public_keys_operation_calculate_fee ::
  "'auth change_public_keys_operation \<Rightarrow> empty_fee_parameters_type \<Rightarrow> share_type" where
  "change_public_keys_operation_calculate_fee op k = 0"

paragraph \<open>set_roll_back_enabled_operation and roll_back_public_keys_operation\<close>

definition set_roll_back_enabled_operation_fee_payer :: "set_roll_back_enabled_operation \<Rightarrow> account_id_type" where
  "set_roll_back_enabled_operation_fee_payer op = set_roll_back_enabled_operation.account op"

definition set_roll_back_enabled_operation_calculate_fee ::
  "set_roll_back_enabled_operation \<Rightarrow> empty_fee_parameters_type \<Rightarrow> share_type" where
  "set_roll_back_enabled_operation_calculate_fee op k = 0"

definition roll_back_public_keys_operation_fee_payer :: "roll_back_public_keys_operation \<Rightarrow> account_id_type" where
  "roll_back_public_keys_operation_fee_payer op = authority op"

definition roll_back_public_keys_operation_calculate_fee ::
  "roll_back_public_keys_operation \<Rightarrow> empty_fee_parameters_type \<Rightarrow> share_type" where
  "roll_back_public_keys_operation_calculate_fee op k = 0"

paragraph \<open>upgrade_account_cycles_operation\<close>

definition upgrade_account_cycles_operation_fee_payer :: "upgrade_account_cycles_operation \<Rightarrow> account_id_type" where
  "upgrade_account_cycles_operation_fee_payer op = upgrade_account_cycles_operation.account op"

definition upgrade_account_cycles_operation_validate :: "upgrade_account_cycles_operation \<Rightarrow> error + unit" where
  "upgrade_account_cycles_operation_validate op = FC_ASSERT False ''false''"

definition upgrade_account_cycles_operation_calculate_fee ::
  "upgrade_account_cycles_operation \<Rightarrow> empty_fee_parameters_type \<Rightarrow> share_type" where
  "upgrade_account_cycles_operation_calculate_fee op k = 0"

paragraph \<open>set_starting_cycle_asset_amount_operation and set_chain_authority_operation\<close>

definition set_starting_cycle_asset_amount_operation_fee_payer ::
  "set_starting_cycle_asset_amount_operation \<Rightarrow> account_id_type" where
  "set_starting_cycle_asset_amount_operation_fee_payer op = set_starting_cycle_asset_amount_operation.issuer op"

text \<open>The body of this \<open>validate()\<close> is empty: it returns.\<close>
definition set_starting_cycle_asset_amount_operation_validate ::
  "set_starting_cycle_asset_amount_operation \<Rightarrow> error + unit" where
  "set_starting_cycle_asset_amount_operation_validate op = Inr ()"

definition set_starting_cycle_asset_amount_operation_calculate_fee ::
  "set_starting_cycle_asset_amount_operation \<Rightarrow> empty_fee_parameters_type \<Rightarrow> share_type" where
  "set_starting_cycle_asset_amount_operation_calculate_fee op k = 0"

definition set_chain_authority_operation_fee_payer :: "set_chain_authority_operation \<Rightarrow> account_id_type" where
  "set_chain_authority_operation_fee_payer op = set_chain_authority_operation.issuer op"

text \<open>The body of this \<open>validate()\<close> is empty as well.\<close>
definition set_chain_authority_operation_validate :: "set_chain_authority_operation \<Rightarrow> error + unit" where
  "set_chain_authority_operation_validate op = Inr ()"

definition set_chain_authority_operation_calculate_fee ::
  "set_chain_authority_operation \<Rightarrow> empty_fee_parameters_type \<Rightarrow> share_type" where
  "set_chain_authority_operation_calculate_fee op k = 0"

subsection \<open>The reflections\<close>

text \<open>Modelled from the spec: the macro \<open>FC_REFLECT\<close> and the serializer that reads it are
  declared outside the header. \<open>FC_REFLECT(T, (m1)...(mn))\<close> lists the members of \<open>T\<close> that
  the serializer visits; an operation serializes the listed members in the listed order, and
  deserializing default-constructs the structure and then reads the listed members into it,
  so a member that is not listed keeps its default-constructed value. The serialized form
  of a structure is modelled as the sequence of the values of its listed members: the byte
  encoding of a single member is taken to be lossless. For each structure, \<open>T_pack\<close> is
  serializing and \<open>T_unpack\<close> is deserializing, with the member list of the header's
  \<open>FC_REFLECT(T, ...)\<close>.\<close>

type_synonym ('pk, 'vote, 'auth, 'sa) account_create_operation_wire =
  "asset \<times> (8 word) \<times> account_id_type \<times> account_id_type \<times> (16 word) \<times> string \<times> 'auth \<times> 'auth \<times> (('pk, 'vote) account_options)"

definition account_create_operation_pack ::
  "('pk, 'vote, 'auth, 'sa) account_create_operation \<Rightarrow> ('pk, 'vote, 'auth, 'sa) account_create_operation_wire" where
  "account_create_operation_pack op =
     (account_create_operation.fee op,
      account_create_operation.kind op,
      account_create_operation.registrar op,
      account_create_operation.referrer op,
      account_create_operation.referrer_percent op,
      account_create_operation.name op,
      account_create_operation.owner op,
      account_create_operation.active op,
      account_create_operation.options op)"

definition account_create_operation_unpack ::
  "('pk, 'vote, 'auth, 'sa) account_create_operation_wire \<Rightarrow> ('pk, 'vote, 'auth, 'sa) account_create_operation" where
  "account_create_operation_unpack w =
     (case w of (v1, v2, v3, v4, v5, v6, v7, v8, v9) \<Rightarrow>
        \<lparr>account_create_operation.fee = v1,
         account_create_operation.kind = v2,
         account_create_operation.registrar = v3,
         account_create_operation.referrer = v4,
         account_create_operation.referrer_percent = v5,
         account_create_operation.name = v6,
         account_create_operation.owner = v7,
         account_create_operation.active = v8,
         account_create_operation.options = v9,
         account_create_operation.extensions =
          \<lparr>value = \<lparr>ext.null_ext = None, ext.owner_special_authority = None, ext.active_special_authority = None, buyback_options = None\<rparr>\<rparr>\<rparr>)"

type_synonym ('pk, 'vote, 'auth, 'sa) account_update_operation_wire =
  "asset \<times> account_id_type \<times> ('auth option) \<times> ('auth option) \<times> (('pk, 'vote) account_options option)"

definition account_update_operation_pack ::
  "('pk, 'vote, 'auth, 'sa) account_update_operation \<Rightarrow> ('pk, 'vote, 'auth, 'sa) account_update_operation_wire" where
  "account_update_operation_pack op =
     (account_update_operation.fee op,
      account_update_operation.account op,
      account_update_operation.owner op,
      account_update_operation.active op,
      account_update_operation.new_options op)"

definition account_update_operation_unpack ::
  "('pk, 'vote, 'auth, 'sa) account_update_operation_wire \<Rightarrow> ('pk, 'vote, 'auth, 'sa) account_update_operation" where
  "account_update_operation_unpack w =
     (case w of (v1, v2, v3, v4, v5) \<Rightarrow>
        \<lparr>account_update_operation.fee = v1,
         account_update_operation.account = v2,
         account_update_operation.owner = v3,
         account_update_operation.active = v4,
         account_update_operation.new_options = v5,
         account_update_operation.extensions =
          \<lparr>value = \<lparr>ext_account_update_operation.null_ext = None, ext_account_update_operation.owner_special_authority = None, ext_account_update_operation.active_special_authority = None\<rparr>\<rparr>\<rparr>)"

type_synonym account_upgrade_operation_wire =
  "asset \<times> account_id_type \<times> bool \<times> extensions_type"

definition account_upgrade_operation_pack ::
  "account_upgrade_operation \<Rightarrow> account_upgrade_operation_wire" where
  "account_upgrade_operation_pack op =
     (account_upgrade_operation.fee op,
      account_upgrade_operation.account_to_upgrade op,
      account_upgrade_operation.upgrade_to_lifetime_member op,
      account_upgrade_operation.extensions op)"

definition account_upgrade_operation_unpack ::
  "account_upgrade_operation_wire \<Rightarrow> account_upgrade_operation" where
  "account_upgrade_operation_unpack w =
     (case w of (v1, v2, v3, v4) \<Rightarrow>
        \<lparr>account_upgrade_operation.fee = v1,
         account_upgrade_operation.account_to_upgrade = v2,
         account_upgrade_operation.upgrade_to_lifetime_member = v3,
         account_upgrade_operation.extensions = v4\<rparr>)"

type_synonym account_whitelist_operation_wire =
  "asset \<times> account_id_type \<times> account_id_type \<times> (8 word) \<times> extensions_type"

definition account_whitelist_operation_pack ::
  "account_whitelist_operation \<Rightarrow> account_whitelist_operation_wire" where
  "account_whitelist_operation_pack op =
     (account_whitelist_operation.fee op,
      account_whitelist_operation.authorizing_account op,
      account_whitelist_operation.account_to_list op,
      account_whitelist_operation.new_listing op,
      account_whitelist_operation.extensions op)"

definition account_whitelist_operation_unpack ::
  "account_whitelist_operation_wire \<Rightarrow> account_whitelist_operation" where
  "account_whitelist_operation_unpack w =
     (case w of (v1, v2, v3, v4, v5) \<Rightarrow>
        \<lparr>account_whitelist_operation.fee = v1,
         account_whitelist_operation.authorizing_account = v2,
         account_whitelist_operation.account_to_list = v3,
         account_whitelist_operation.new_listing = v4,
         account_whitelist_operation.extensions = v5\<rparr>)"

type_synonym account_transfer_operation_wire =
  "asset \<times> account_id_type \<times> account_id_type \<times> extensions_type"

definition account_transfer_operation_pack ::
  "account_transfer_operation \<Rightarrow> account_transfer_operation_wire" where
  "account_transfer_operation_pack op =
     (account_transfer_operation.fee op,
      account_transfer_operation.account_id op,
      account_transfer_operation.new_owner op,
      account_transfer_operation.extensions op)"

definition account_transfer_operation_unpack ::
  "account_transfer_operation_wire \<Rightarrow> account_transfer_operation" where
  "account_transfer_operation_unpack w =
     (case w of (v1, v2, v3, v4) \<Rightarrow>
        \<lparr>account_transfer_operation.fee = v1,
         account_transfer_operation.account_id = v2,
         account_transfer_operation.new_owner = v3,
         account_transfer_operation.extensions = v4\<rparr>)"

type_synonym tether_accounts_operation_wire =
  "asset \<times> account_id_type \<times> account_id_type \<times> extensions_type"

definition tether_accounts_operation_pack ::
  "tether_accounts_operation \<Rightarrow> tether_accounts_operation_wire" where
  "tether_accounts_operation_pack op =
     (tether_accounts_operation.fee op,
      tether_accounts_operation.wallet_account op,
      tether_accounts_operation.vault_account op,
      tether_accounts_operation.extensions op)"

definition tether_accounts_operation_unpack ::
  "tether_accounts_operation_wire \<Rightarrow> tether_accounts_operation" where
  "tether_accounts_operation_unpack w =
     (case w of (v1, v2, v3, v4) \<Rightarrow>
        \<lparr>tether_accounts_operation.fee = v1,
         tether_accounts_operation.wallet_account = v2,
         tether_accounts_operation.vault_account = v3,
         tether_accounts_operation.extensions = v4\<rparr>)"

type_synonym upgrade_account_cycles_operation_wire =
  "asset \<times> account_id_type \<times> string \<times> extensions_type"

definition upgrade_account_cycles_operation_pack ::
  "upgrade_account_cycles_operation \<Rightarrow> upgrade_account_cycles_operation_wire" where
  "upgrade_account_cycles_operation_pack op =
     (upgrade_account_cycles_operation.fee op,
      upgrade_account_cycles_operation.account op,
      upgrade_account_cycles_operation.description op,
      upgrade_account_cycles_operation.extensions op)"

definition upgrade_account_cycles_operation_unpack ::
  "upgrade_account_cycles_operation_wire \<Rightarrow> upgrade_account_cycles_operation" where
  "upgrade_account_cycles_operation_unpack w =
     (case w of (v1, v2, v3, v4) \<Rightarrow>
        \<lparr>upgrade_account_cycles_operation.fee = v1,
         upgrade_account_cycles_operation.account = v2,
         upgrade_account_cycles_operation.description = v3,
         upgrade_account_cycles_operation.extensions = v4\<rparr>)"

type_synonym 'auth change_public_keys_operation_wire =
  "asset \<times> account_id_type \<times> ('auth option) \<times> ('auth option)"

definition change_public_keys_operation_pack ::
  "'auth change_public_keys_operation \<Rightarrow> 'auth change_public_keys_operation_wire" where
  "change_public_keys_operation_pack op =
     (change_public_keys_operation.fee op,
      change_public_keys_operation.account op,
      change_public_keys_operation.active op,
      change_public_keys_operation.owner op)"

definition change_public_keys_operation_unpack ::
  "'auth change_public_keys_operation_wire \<Rightarrow> 'auth change_public_keys_operation" where
  "change_public_keys_operation_unpack w =
     (case w of (v1, v2, v3, v4) \<Rightarrow>
        \<lparr>change_public_keys_operation.fee = v1,
         change_public_keys_operation.account = v2,
         change_public_keys_operation.active = v3,
         change_public_keys_operation.owner = v4,
         change_public_keys_operation.extensions =
          {}\<rparr>)"

type_synonym set_roll_back_enabled_operation_wire =
  "asset \<times> account_id_type \<times> bool \<times> extensions_type"

definition set_roll_back_enabled_operation_pack ::
  "set_roll_back_enabled_operation \<Rightarrow> set_roll_back_enabled_operation_wire" where
  "set_roll_back_enabled_operation_pack op =
     (set_roll_back_enabled_operation.fee op,
      set_roll_back_enabled_operation.account op,
      set_roll_back_enabled_operation.roll_back_enabled op,
      set_roll_back_enabled_operation.extensions op)"

definition set_roll_back_enabled_operation_unpack ::
  "set_roll_back_enabled_operation_wire \<Rightarrow> set_roll_back_enabled_operation" where
  "set_roll_back_enabled_operation_unpack w =
     (case w of (v1, v2, v3, v4) \<Rightarrow>
        \<lparr>set_roll_back_enabled_operation.fee = v1,
         set_roll_back_enabled_operation.account = v2,
         set_roll_back_enabled_operation.roll_back_enabled = v3,
         set_roll_back_enabled_operation.extensions = v4\<rparr>)"

type_synonym roll_back_public_keys_operation_wire =
  "asset \<times> account_id_type \<times> account_id_type \<times> extensions_type"

definition roll_back_public_keys_operation_pack ::
  "roll_back_public_keys_operation \<Rightarrow> roll_back_public_keys_operation_wire" where
  "roll_back_public_keys_operation_pack op =
     (roll_back_public_keys_operation.fee op,
      roll_back_public_keys_operation.authority op,
      roll_back_public_keys_operation.account op,
      roll_back_public_keys_operation.extensions op)"

definition roll_back_public_keys_operation_unpack ::
  "roll_back_public_keys_operation_wire \<Rightarrow> roll_back_public_keys_operation" where
  "roll_back_public_keys_operation_unpack w =
     (case w of (v1, v2, v3, v4) \<Rightarrow>
        \<lparr>roll_back_public_keys_operation.fee = v1,
         roll_back_public_keys_operation.authority = v2,
         roll_back_public_keys_operation.account = v3,
         roll_back_public_keys_operation.extensions = v4\<rparr>)"

type_synonym set_starting_cycle_asset_amount_operation_wire =
  "asset \<times> account_id_type \<times> (32 word) \<times> extensions_type"

definition set_starting_cycle_asset_amount_operation_pack ::
  "set_starting_cycle_asset_amount_operation \<Rightarrow> set_starting_cycle_asset_amount_operation_wire" where
  "set_starting_cycle_asset_amount_operation_pack op =
     (set_starting_cycle_asset_amount_operation.fee op,
      set_starting_cycle_asset_amount_operation.issuer op,
      set_starting_cycle_asset_amount_operation.new_amount op,
      set_starting_cycle_asset_amount_operation.extensions op)"

definition set_starting_cycle_asset_amount_operation_unpack ::
  "set_starting_cycle_asset_amount_operation_wire \<Rightarrow> set_starting_cycle_asset_amount_operation" where
  "set_starting_cycle_asset_amount_operation_unpack w =
     (case w of (v1, v2, v3, v4) \<Rightarrow>
        \<lparr>set_starting_cycle_asset_amount_operation.fee = v1,
         set_starting_cycle_asset_amount_operation.issuer = v2,
         set_starting_cycle_asset_amount_operation.new_amount = v3,
         set_starting_cycle_asset_amount_operation.extensions = v4\<rparr>)"

type_synonym set_chain_authority_operation_wire =
  "asset \<times> account_id_type \<times> account_id_type \<times> string \<times> extensions_type"

definition set_chain_authority_operation_pack ::
  "set_chain_authority_operation \<Rightarrow> set_chain_authority_operation_wire" where
  "set_chain_authority_operation_pack op =
     (set_chain_authority_operation.fee op,
      set_chain_authority_operation.issuer op,
      set_chain_authority_operation.account op,
      set_chain_authority_operation.kind op,
      set_chain_authority_operation.extensions op)"

definition set_chain_authority_operation_unpack ::
  "set_chain_authority_operation_wire \<Rightarrow> set_chain_authority_operation" where
  "set_chain_authority_operation_unpack w =
     (case w of (v1, v2, v3, v4, v5) \<Rightarrow>
        \<lparr>set_chain_authority_operation.fee = v1,
         set_chain_authority_operation.issuer = v2,
         set_chain_authority_operation.account = v3,
         set_chain_authority_operation.kind = v4,
         set_chain_authority_operation.extensions = v5\<rparr>)"

section \<open>Properties\<close>

subsection \<open>Required authorities\<close>

text \<open>C1. For an \<open>account_update_operation\<close> and for a \<open>change_public_keys_operation\<close>, exactly
  one of the two authority classes is required for \<open>account\<close>. When an owner update is present
  (a new owner authority, or for \<open>account_update_operation\<close> the owner-special-authority
  extension), \<open>get_required_owner_authorities\<close> inserts \<open>account\<close> and
  \<open>get_required_active_authorities\<close> leaves the set as it is; otherwise it is the other way
  round. Starting from the empty sets, \<open>account\<close> is in one of the two results and not in the
  other.\<close>
theorem owner_xor_active_authority:
  "account_update_operation_get_required_owner_authorities u a =
     (if account_update_operation.owner u \<noteq> None
         \<or> ext_account_update_operation.owner_special_authority
              (value (account_update_operation.extensions u)) \<noteq> None
      then insert (account_update_operation.account u) a else a)
   \<and> account_update_operation_get_required_active_authorities u a =
     (if account_update_operation.owner u \<noteq> None
         \<or> ext_account_update_operation.owner_special_authority
              (value (account_update_operation.extensions u)) \<noteq> None
      then a else insert (account_update_operation.account u) a)
   \<and> (account_update_operation.account u \<in> account_update_operation_get_required_owner_authorities u {})
       \<noteq> (account_update_operation.account u \<in> account_update_operation_get_required_active_authorities u {})
   \<and> change_public_keys_operation_get_required_owner_authorities c a =
     (if change_public_keys_operation.owner c \<noteq> None
      then insert (change_public_keys_operation.account c) a else a)
   \<and> change_public_keys_operation_get_required_active_authorities c a =
     (if change_public_keys_operation.owner c \<noteq> None
      then a else insert (change_public_keys_operation.account c) a)
   \<and> (change_public_keys_operation.account c \<in> change_public_keys_operation_get_required_owner_authorities c {})
       \<noteq> (change_public_keys_operation.account c \<in> change_public_keys_operation_get_required_active_authorities c {})"
  by (simp add: account_update_operation_get_required_owner_authorities_def
      account_update_operation_get_required_active_authorities_def
      account_update_operation_is_owner_update_def
      change_public_keys_operation_get_required_owner_authorities_def
      change_public_keys_operation_get_required_active_authorities_def
      change_public_keys_operation_is_owner_update_def)

text \<open>An update of account 5 that only sets the owner-special-authority extension requires
  the owner authority of 5; a key change of account 7 that only sets a new active authority
  requires the active authority of 7.\<close>
theorem owner_xor_active_authority_witness:
  "account_update_operation_get_required_owner_authorities
     \<lparr>account_update_operation.fee = \<lparr>amount = 0, asset_id = 0\<rparr>,
      account_update_operation.account = 5,
      account_update_operation.owner = None,
      account_update_operation.active = (None :: nat option),
      new_options = (None :: (nat, nat) account_options option),
      account_update_operation.extensions =
        \<lparr>value = \<lparr>ext_account_update_operation.null_ext = None,
                  ext_account_update_operation.owner_special_authority = Some (9 :: nat),
                  ext_account_update_operation.active_special_authority = None\<rparr>\<rparr>\<rparr> {3} = {3, 5}
   \<and> account_update_operation_get_required_active_authorities
     \<lparr>account_update_operation.fee = \<lparr>amount = 0, asset_id = 0\<rparr>,
      account_update_operation.account = 5,
      account_update_operation.owner = None,
      account_update_operation.active = (None :: nat option),
      new_options = (None :: (nat, nat) account_options option),
      account_update_operation.extensions =
        \<lparr>value = \<lparr>ext_account_update_operation.null_ext = None,
                  ext_account_update_operation.owner_special_authority = Some (9 :: nat),
                  ext_account_update_operation.active_special_authority = None\<rparr>\<rparr>\<rparr> {3} = {3}
   \<and> change_public_keys_operation_get_required_owner_authorities
     \<lparr>change_public_keys_operation.fee = \<lparr>amount = 0, asset_id = 0\<rparr>,
      change_public_keys_operation.account = 7,
      change_public_keys_operation.active = Some (1 :: nat),
      change_public_keys_operation.owner = None,
      change_public_keys_operation.extensions = {}\<rparr> {3} = {3}
   \<and> change_public_keys_operation_get_required_active_authorities
     \<lparr>change_public_keys_operation.fee = \<lparr>amount = 0, asset_id = 0\<rparr>,
      change_public_keys_operation.account = 7,
      change_public_keys_operation.active = Some (1 :: nat),
      change_public_keys_operation.owner = None,
      change_public_keys_operation.extensions = {}\<rparr> {3} = {3, 7}"
  using owner_xor_active_authority
    [where a = "{3}"
       and u = "\<lparr>account_update_operation.fee = \<lparr>amount = 0, asset_id = 0\<rparr>,
      account_update_operation.account = 5,
      account_update_operation.owner = None,
      account_update_operation.active = (None :: nat option),
      new_options = (None :: (nat, nat) account_options option),
      account_update_operation.extensions =
        \<lparr>value = \<lparr>ext_account_update_operation.null_ext = None,
                  ext_account_update_operation.owner_special_authority = Some (9 :: nat),
                  ext_account_update_operation.active_special_authority = None\<rparr>\<rparr>\<rparr>"
       and c = "\<lparr>change_public_keys_operation.fee = \<lparr>amount = 0, asset_id = 0\<rparr>,
      change_public_keys_operation.account = 7,
      change_public_keys_operation.active = Some (1 :: nat),
      change_public_keys_operation.owner = None,
      change_public_keys_operation.extensions = {}\<rparr>"]
  by (simp add: insert_commute)

text \<open>C2. For an \<open>account_create_operation\<close>, \<open>get_required_active_authorities\<close> adds
  \<open>registrar\<close> to the set, adds the buyback asset issuer exactly when
  \<open>extensions.value.buyback_options\<close> is populated, and adds nothing else.\<close>
theorem account_create_required_active:
  "account_create_operation_get_required_active_authorities op a =
     a \<union> {registrar op} \<union>
       (case buyback_options (value (account_create_operation.extensions op)) of
          Some b \<Rightarrow> {asset_to_buy_issuer b} | None \<Rightarrow> {})
   \<and> registrar op \<in> account_create_operation_get_required_active_authorities op a"
  by (auto simp: account_create_operation_get_required_active_authorities_def Let_def
      split: option.splits)

text \<open>C3. For a \<open>tether_accounts_operation\<close>, \<open>get_required_active_authorities\<close> called on the
  empty set gives exactly the wallet account and the vault account, whatever the fee and the
  extensions of the operation are.\<close>
theorem tether_accounts_required_active:
  "tether_accounts_operation_get_required_active_authorities op {} =
     {wallet_account op, vault_account op}
   \<and> tether_accounts_operation_get_required_active_authorities
       (op\<lparr>tether_accounts_operation.fee := f, tether_accounts_operation.extensions := e\<rparr>) {} =
     {wallet_account op, vault_account op}"
  by (auto simp: tether_accounts_operation_get_required_active_authorities_def)

text \<open>C10. Each \<open>get_required_owner_authorities\<close> and \<open>get_required_active_authorities\<close> of
  the header only adds to the set it is given: what was in the set before the call is in it
  after the call, and what the call adds is an account id held by a member of the operation.\<close>
theorem required_authorities_only_add:
  "a \<subseteq> account_create_operation_get_required_active_authorities cr a
   \<and> account_create_operation_get_required_active_authorities cr a \<subseteq>
       a \<union> {registrar cr} \<union>
       set_option (map_option asset_to_buy_issuer
         (buyback_options (value (account_create_operation.extensions cr))))
   \<and> a \<subseteq> account_update_operation_get_required_owner_authorities up a
   \<and> account_update_operation_get_required_owner_authorities up a \<subseteq>
       a \<union> {account_update_operation.account up}
   \<and> a \<subseteq> account_update_operation_get_required_active_authorities up a
   \<and> account_update_operation_get_required_active_authorities up a \<subseteq>
       a \<union> {account_update_operation.account up}
   \<and> a \<subseteq> tether_accounts_operation_get_required_active_authorities te a
   \<and> tether_accounts_operation_get_required_active_authorities te a \<subseteq>
       a \<union> {wallet_account te, vault_account te}
   \<and> a \<subseteq> change_public_keys_operation_get_required_owner_authorities cp a
   \<and> change_public_keys_operation_get_required_owner_authorities cp a \<subseteq>
       a \<union> {change_public_keys_operation.account cp}
   \<and> a \<subseteq> change_public_keys_operation_get_required_active_authorities cp a
   \<and> change_public_keys_operation_get_required_active_authorities cp a \<subseteq>
       a \<union> {change_public_keys_operation.account cp}"
  by (auto simp: account_create_operation_get_required_active_authorities_def Let_def
      account_update_operation_get_required_owner_authorities_def
      account_update_operation_get_required_active_authorities_def
      tether_accounts_operation_get_required_active_authorities_def
      change_public_keys_operation_get_required_owner_authorities_def
      change_public_keys_operation_get_required_active_authorities_def
      split: option.splits)

text \<open>With accounts 2 and 3 already in the set: creating an account with registrar 1 and a
  buyback linkage to issuer 7 keeps 2 and 3 and adds 1 and 7; updating account 5 with a new
  owner authority keeps 2 and 3, adds 5 to the owner set and adds nothing to the active
  set.\<close>
theorem required_authorities_only_add_witness:
  "{2, 3} \<subseteq> account_create_operation_get_required_active_authorities
     \<lparr>account_create_operation.fee = \<lparr>amount = 0, asset_id = 0\<rparr>,
      account_create_operation.kind = 0,
      registrar = 1,
      referrer = 4,
      referrer_percent = 0,
      name = ''alice'',
      account_create_operation.owner = (0 :: nat),
      account_create_operation.active = (0 :: nat),
      options = \<lparr>memo_key = (0 :: nat), voting_account = 5, num_witness = 0,
                 num_committee = 0, votes = ({} :: nat set),
                 account_options.extensions = {}\<rparr>,
      account_create_operation.extensions =
        \<lparr>value = \<lparr>ext.null_ext = None,
                  ext.owner_special_authority = (None :: nat option),
                  ext.active_special_authority = None,
                  buyback_options = Some \<lparr>asset_to_buy_issuer = 7\<rparr>\<rparr>\<rparr>\<rparr> {2, 3}
   \<and> account_create_operation_get_required_active_authorities
     \<lparr>account_create_operation.fee = \<lparr>amount = 0, asset_id = 0\<rparr>,
      account_create_operation.kind = 0,
      registrar = 1,
      referrer = 4,
      referrer_percent = 0,
      name = ''alice'',
      account_create_operation.owner = (0 :: nat),
      account_create_operation.active = (0 :: nat),
      options = \<lparr>memo_key = (0 :: nat), voting_account = 5, num_witness = 0,
                 num_committee = 0, votes = ({} :: nat set),
                 account_options.extensions = {}\<rparr>,
      account_create_operation.extensions =
        \<lparr>value = \<lparr>ext.null_ext = None,
                  ext.owner_special_authority = (None :: nat option),
                  ext.active_special_authority = None,
                  buyback_options = Some \<lparr>asset_to_buy_issuer = 7\<rparr>\<rparr>\<rparr>\<rparr> {2, 3}
       \<subseteq> {2, 3} \<union> {1} \<union> {7}
   \<and> {2, 3} \<subseteq> account_update_operation_get_required_owner_authorities
     \<lparr>account_update_operation.fee = \<lparr>amount = 0, asset_id = 0\<rparr>,
      account_update_operation.account = 5,
      account_update_operation.owner = Some (8 :: nat),
      account_update_operation.active = None,
      new_options = (None :: (nat, nat) account_options option),
      account_update_operation.extensions =
        \<lparr>value = \<lparr>ext_account_update_operation.null_ext = None,
                  ext_account_update_operation.owner_special_authority = (None :: nat option),
                  ext_account_update_operation.active_special_authority = None\<rparr>\<rparr>\<rparr> {2, 3}
   \<and> account_update_operation_get_required_owner_authorities
     \<lparr>account_update_operation.fee = \<lparr>amount = 0, asset_id = 0\<rparr>,
      account_update_operation.account = 5,
      account_update_operation.owner = Some (8 :: nat),
      account_update_operation.active = None,
      new_options = (None :: (nat, nat) account_options option),
      account_update_operation.extensions =
        \<lparr>value = \<lparr>ext_account_update_operation.null_ext = None,
                  ext_account_update_operation.owner_special_authority = (None :: nat option),
                  ext_account_update_operation.active_special_authority = None\<rparr>\<rparr>\<rparr> {2, 3}
       \<subseteq> {2, 3} \<union> {5}
   \<and> account_update_operation_get_required_active_authorities
     \<lparr>account_update_operation.fee = \<lparr>amount = 0, asset_id = 0\<rparr>,
      account_update_operation.account = 5,
      account_update_operation.owner = Some (8 :: nat),
      account_update_operation.active = None,
      new_options = (None :: (nat, nat) account_options option),
      account_update_operation.extensions =
        \<lparr>value = \<lparr>ext_account_update_operation.null_ext = None,
                  ext_account_update_operation.owner_special_authority = (None :: nat option),
                  ext_account_update_operation.active_special_authority = None\<rparr>\<rparr>\<rparr> {2, 3}
       \<subseteq> {2, 3} \<union> {5}"
  using required_authorities_only_add
    [where a = "{2, 3}"
       and cr = "\<lparr>account_create_operation.fee = \<lparr>amount = 0, asset_id = 0\<rparr>,
      account_create_operation.kind = 0,
      registrar = 1,
      referrer = 4,
      referrer_percent = 0,
      name = ''alice'',
      account_create_operation.owner = (0 :: nat),
      account_create_operation.active = (0 :: nat),
      options = \<lparr>memo_key = (0 :: nat), voting_account = 5, num_witness = 0,
                 num_committee = 0, votes = ({} :: nat set),
                 account_options.extensions = {}\<rparr>,
      account_create_operation.extensions =
        \<lparr>value = \<lparr>ext.null_ext = None,
                  ext.owner_special_authority = (None :: nat option),
                  ext.active_special_authority = None,
                  buyback_options = Some \<lparr>asset_to_buy_issuer = 7\<rparr>\<rparr>\<rparr>\<rparr>"
       and up = "\<lparr>account_update_operation.fee = \<lparr>amount = 0, asset_id = 0\<rparr>,
      account_update_operation.account = 5,
      account_update_operation.owner = Some (8 :: nat),
      account_update_operation.active = None,
      new_options = (None :: (nat, nat) account_options option),
      account_update_operation.extensions =
        \<lparr>value = \<lparr>ext_account_update_operation.null_ext = None,
                  ext_account_update_operation.owner_special_authority = (None :: nat option),
                  ext_account_update_operation.active_special_authority = None\<rparr>\<rparr>\<rparr>",
       THEN conjunct1]
    required_authorities_only_add
    [where a = "{2, 3}"
       and cr = "\<lparr>account_create_operation.fee = \<lparr>amount = 0, asset_id = 0\<rparr>,
      account_create_operation.kind = 0,
      registrar = 1,
      referrer = 4,
      referrer_percent = 0,
      name = ''alice'',
      account_create_operation.owner = (0 :: nat),
      account_create_operation.active = (0 :: nat),
      options = \<lparr>memo_key = (0 :: nat), voting_account = 5, num_witness = 0,
                 num_committee = 0, votes = ({} :: nat set),
                 account_options.extensions = {}\<rparr>,
      account_create_operation.extensions =
        \<lparr>value = \<lparr>ext.null_ext = None,
                  ext.owner_special_authority = (None :: nat option),
                  ext.active_special_authority = None,
                  buyback_options = Some \<lparr>asset_to_buy_issuer = 7\<rparr>\<rparr>\<rparr>\<rparr>"
       and up = "\<lparr>account_update_operation.fee = \<lparr>amount = 0, asset_id = 0\<rparr>,
      account_update_operation.account = 5,
      account_update_operation.owner = Some (8 :: nat),
      account_update_operation.active = None,
      new_options = (None :: (nat, nat) account_options option),
      account_update_operation.extensions =
        \<lparr>value = \<lparr>ext_account_update_operation.null_ext = None,
                  ext_account_update_operation.owner_special_authority = (None :: nat option),
                  ext_account_update_operation.active_special_authority = None\<rparr>\<rparr>\<rparr>",
       THEN conjunct2, THEN conjunct1]
    required_authorities_only_add
    [where a = "{2, 3}"
       and cr = "\<lparr>account_create_operation.fee = \<lparr>amount = 0, asset_id = 0\<rparr>,
      account_create_operation.kind = 0,
      registrar = 1,
      referrer = 4,
      referrer_percent = 0,
      name = ''alice'',
      account_create_operation.owner = (0 :: nat),
      account_create_operation.active = (0 :: nat),
      options = \<lparr>memo_key = (0 :: nat), voting_account = 5, num_witness = 0,
                 num_committee = 0, votes = ({} :: nat set),
                 account_options.extensions = {}\<rparr>,
      account_create_operation.extensions =
        \<lparr>value = \<lparr>ext.null_ext = None,
                  ext.owner_special_authority = (None :: nat option),
                  ext.active_special_authority = None,
                  buyback_options = Some \<lparr>asset_to_buy_issuer = 7\<rparr>\<rparr>\<rparr>\<rparr>"
       and up = "\<lparr>account_update_operation.fee = \<lparr>amount = 0, asset_id = 0\<rparr>,
      account_update_operation.account = 5,
      account_update_operation.owner = Some (8 :: nat),
      account_update_operation.active = None,
      new_options = (None :: (nat, nat) account_options option),
      account_update_operation.extensions =
        \<lparr>value = \<lparr>ext_account_update_operation.null_ext = None,
                  ext_account_update_operation.owner_special_authority = (None :: nat option),
                  ext_account_update_operation.active_special_authority = None\<rparr>\<rparr>\<rparr>",
       THEN conjunct2, THEN conjunct2, THEN conjunct1]
    required_authorities_only_add
    [where a = "{2, 3}"
       and cr = "\<lparr>account_create_operation.fee = \<lparr>amount = 0, asset_id = 0\<rparr>,
      account_create_operation.kind = 0,
      registrar = 1,
      referrer = 4,
      referrer_percent = 0,
      name = ''alice'',
      account_create_operation.owner = (0 :: nat),
      account_create_operation.active = (0 :: nat),
      options = \<lparr>memo_key = (0 :: nat), voting_account = 5, num_witness = 0,
                 num_committee = 0, votes = ({} :: nat set),
                 account_options.extensions = {}\<rparr>,
      account_create_operation.extensions =
        \<lparr>value = \<lparr>ext.null_ext = None,
                  ext.owner_special_authority = (None :: nat option),
                  ext.active_special_authority = None,
                  buyback_options = Some \<lparr>asset_to_buy_issuer = 7\<rparr>\<rparr>\<rparr>\<rparr>"
       and up = "\<lparr>account_update_operation.fee = \<lparr>amount = 0, asset_id = 0\<rparr>,
      account_update_operation.account = 5,
      account_update_operation.owner = Some (8 :: nat),
      account_update_operation.active = None,
      new_options = (None :: (nat, nat) account_options option),
      account_update_operation.extensions =
        \<lparr>value = \<lparr>ext_account_update_operation.null_ext = None,
                  ext_account_update_operation.owner_special_authority = (None :: nat option),
                  ext_account_update_operation.active_special_authority = None\<rparr>\<rparr>\<rparr>",
       THEN conjunct2, THEN conjunct2, THEN conjunct2, THEN conjunct1]
    required_authorities_only_add
    [where a = "{2, 3}"
       and cr = "\<lparr>account_create_operation.fee = \<lparr>amount = 0, asset_id = 0\<rparr>,
      account_create_operation.kind = 0,
      registrar = 1,
      referrer = 4,
      referrer_percent = 0,
      name = ''alice'',
      account_create_operation.owner = (0 :: nat),
      account_create_operation.active = (0 :: nat),
      options = \<lparr>memo_key = (0 :: nat), voting_account = 5, num_witness = 0,
                 num_committee = 0, votes = ({} :: nat set),
                 account_options.extensions = {}\<rparr>,
      account_create_operation.extensions =
        \<lparr>value = \<lparr>ext.null_ext = None,
                  ext.owner_special_authority = (None :: nat option),
                  ext.active_special_authority = None,
                  buyback_options = Some \<lparr>asset_to_buy_issuer = 7\<rparr>\<rparr>\<rparr>\<rparr>"
       and up = "\<lparr>account_update_operation.fee = \<lparr>amount = 0, asset_id = 0\<rparr>,
      account_update_operation.account = 5,
      account_update_operation.owner = Some (8 :: nat),
      account_update_operation.active = None,
      new_options = (None :: (nat, nat) account_options option),
      account_update_operation.extensions =
        \<lparr>value = \<lparr>ext_account_update_operation.null_ext = None,
                  ext_account_update_operation.owner_special_authority = (None :: nat option),
                  ext_account_update_operation.active_special_authority = None\<rparr>\<rparr>\<rparr>",
       THEN conjunct2, THEN conjunct2, THEN conjunct2, THEN conjunct2, THEN conjunct2, THEN conjunct1]
  by simp

subsection \<open>Validation\<close>

text \<open>C5. \<open>account_whitelist_operation::validate()\<close> returns exactly when \<open>new_listing < 4\<close> and
  \<open>fee.amount >= 0\<close>; in every other case it fails with a validation error.\<close>
theorem account_whitelist_validate_iff:
  "(account_whitelist_operation_validate op = Inr ()) =
     (new_listing op < 4 \<and> 0 \<le> sint (amount (account_whitelist_operation.fee op)))
   \<and> (\<exists>e. account_whitelist_operation_validate op = Inl (ValidationError e)) =
     (\<not> (new_listing op < 4 \<and> 0 \<le> sint (amount (account_whitelist_operation.fee op))))"
  by (auto simp: account_whitelist_operation_validate_def FC_ASSERT_def and_then_def)

text \<open>The listing 3 with the fee 10 is accepted.\<close>
theorem account_whitelist_validate_iff_witness:
  "account_whitelist_operation_validate
     \<lparr>account_whitelist_operation.fee = \<lparr>amount = 10, asset_id = 0\<rparr>,
      authorizing_account = 1, account_to_list = 2, new_listing = 3,
      account_whitelist_operation.extensions = {}\<rparr> = Inr ()"
  using account_whitelist_validate_iff
    [where op = "\<lparr>account_whitelist_operation.fee = \<lparr>amount = 10, asset_id = 0\<rparr>,
      authorizing_account = 1, account_to_list = 2, new_listing = 3,
      account_whitelist_operation.extensions = {}\<rparr>", THEN conjunct1]
  by simp

text \<open>The two ways to fail, each at a concrete operation: the listing 4, and the fee -1.\<close>
lemma account_whitelist_validate_rejects:
  "account_whitelist_operation_validate
     \<lparr>account_whitelist_operation.fee = \<lparr>amount = 10, asset_id = 0\<rparr>,
      authorizing_account = 1, account_to_list = 2, new_listing = 4,
      account_whitelist_operation.extensions = {}\<rparr> = Inl (ValidationError ''new_listing < 0x4'')
   \<and> account_whitelist_operation_validate
     \<lparr>account_whitelist_operation.fee = \<lparr>amount = - 1, asset_id = 0\<rparr>,
      authorizing_account = 1, account_to_list = 2, new_listing = 3,
      account_whitelist_operation.extensions = {}\<rparr> = Inl (ValidationError ''fee.amount >= 0'')"
  by (simp add: account_whitelist_operation_validate_def FC_ASSERT_def and_then_def)

text \<open>C6. Non-negativity of \<open>fee.amount\<close> is not checked by every \<open>validate()\<close> of the
  header: the bodies of \<open>set_starting_cycle_asset_amount_operation::validate()\<close> and of
  \<open>set_chain_authority_operation::validate()\<close> are empty, and both return at an operation
  whose fee amount is -1.\<close>
theorem empty_validate_accepts_negative_fee:
  "sint (amount \<lparr>amount = - 1, asset_id = 0\<rparr>) = - 1
   \<and> set_starting_cycle_asset_amount_operation_validate
       \<lparr>set_starting_cycle_asset_amount_operation.fee = \<lparr>amount = - 1, asset_id = 0\<rparr>,
        set_starting_cycle_asset_amount_operation.issuer = 0,
        new_amount = 0,
        set_starting_cycle_asset_amount_operation.extensions = {}\<rparr> = Inr ()
   \<and> set_chain_authority_operation_validate
       \<lparr>set_chain_authority_operation.fee = \<lparr>amount = - 1, asset_id = 0\<rparr>,
        set_chain_authority_operation.issuer = 0,
        set_chain_authority_operation.account = 1,
        set_chain_authority_operation.kind = ''license_issuer'',
        set_chain_authority_operation.extensions = {}\<rparr> = Inr ()"
  by (simp add: set_starting_cycle_asset_amount_operation_validate_def
      set_chain_authority_operation_validate_def)

text \<open>\<open>account_whitelist_operation::validate()\<close>, next to them in the header, does fail on
  a negative fee amount, with its first assertion.\<close>
lemma account_whitelist_validate_negative_fee:
  "sint (amount (account_whitelist_operation.fee w)) < 0 \<Longrightarrow>
     account_whitelist_operation_validate w = Inl (ValidationError ''fee.amount >= 0'')"
  by (simp add: account_whitelist_operation_validate_def FC_ASSERT_def and_then_def)

text \<open>C7. \<open>upgrade_account_cycles_operation::validate()\<close> fails for every operation, whatever
  its members hold.\<close>
theorem upgrade_account_cycles_validate_fails:
  "upgrade_account_cycles_operation_validate op = Inl (ValidationError ''false'')"
  by (simp add: upgrade_account_cycles_operation_validate_def FC_ASSERT_def)

subsection \<open>Fees\<close>

text \<open>C8. For each of the eight operations whose \<open>fee_parameters_type\<close> is empty,
  \<open>calculate_fee\<close> returns 0 for every operation and every parameter.\<close>
theorem empty_fee_parameters_zero_fee:
  "account_create_operation_calculate_fee op1 k1 = 0
   \<and> tether_accounts_operation_calculate_fee op2 k2 = 0
   \<and> change_public_keys_operation_calculate_fee op3 k3 = 0
   \<and> set_roll_back_enabled_operation_calculate_fee op4 k4 = 0
   \<and> roll_back_public_keys_operation_calculate_fee op5 k5 = 0
   \<and> upgrade_account_cycles_operation_calculate_fee op6 k6 = 0
   \<and> set_starting_cycle_asset_amount_operation_calculate_fee op7 k7 = 0
   \<and> set_chain_authority_operation_calculate_fee op8 k8 = 0"
  by (simp add: account_create_operation_calculate_fee_def
      tether_accounts_operation_calculate_fee_def
      change_public_keys_operation_calculate_fee_def
      set_roll_back_enabled_operation_calculate_fee_def
      roll_back_public_keys_operation_calculate_fee_def
      upgrade_account_cycles_operation_calculate_fee_def
      set_starting_cycle_asset_amount_operation_calculate_fee_def
      set_chain_authority_operation_calculate_fee_def)

text \<open>C9. \<open>fee_payer()\<close> of each of the twelve operations returns the designated member of
  the operation, unchanged.\<close>
theorem fee_payer_is_member:
  "account_create_operation_fee_payer op1 = registrar op1
   \<and> account_update_operation_fee_payer op2 = account_update_operation.account op2
   \<and> account_whitelist_operation_fee_payer op3 = authorizing_account op3
   \<and> account_upgrade_operation_fee_payer op4 = account_to_upgrade op4
   \<and> account_transfer_operation_fee_payer op5 = account_id op5
   \<and> tether_accounts_operation_fee_payer op6 = wallet_account op6
   \<and> change_public_keys_operation_fee_payer op7 = change_public_keys_operation.account op7
   \<and> set_roll_back_enabled_operation_fee_payer op8 = set_roll_back_enabled_operation.account op8
   \<and> roll_back_public_keys_operation_fee_payer op9 = authority op9
   \<and> upgrade_account_cycles_operation_fee_payer op10 = upgrade_account_cycles_operation.account op10
   \<and> set_starting_cycle_asset_amount_operation_fee_payer op11 =
       set_starting_cycle_asset_amount_operation.issuer op11
   \<and> set_chain_authority_operation_fee_payer op12 = set_chain_authority_operation.issuer op12"
  by (simp add: account_create_operation_fee_payer_def
      account_update_operation_fee_payer_def
      account_whitelist_operation_fee_payer_def
      account_upgrade_operation_fee_payer_def
      account_transfer_operation_fee_payer_def
      tether_accounts_operation_fee_payer_def
      change_public_keys_operation_fee_payer_def
      set_roll_back_enabled_operation_fee_payer_def
      roll_back_public_keys_operation_fee_payer_def
      upgrade_account_cycles_operation_fee_payer_def
      set_starting_cycle_asset_amount_operation_fee_payer_def
      set_chain_authority_operation_fee_payer_def)

subsection \<open>Serializing and deserializing\<close>

text \<open>The nine reflections that list every member of their operation, \<open>extensions\<close>
  included, give back the operation that was serialized.\<close>
lemma unpack_pack_all_members_listed:
  "account_upgrade_operation_unpack (account_upgrade_operation_pack op1) = op1"
  "account_whitelist_operation_unpack (account_whitelist_operation_pack op2) = op2"
  "account_transfer_operation_unpack (account_transfer_operation_pack op3) = op3"
  "tether_accounts_operation_unpack (tether_accounts_operation_pack op4) = op4"
  "upgrade_account_cycles_operation_unpack (upgrade_account_cycles_operation_pack op5) = op5"
  "set_roll_back_enabled_operation_unpack (set_roll_back_enabled_operation_pack op6) = op6"
  "roll_back_public_keys_operation_unpack (roll_back_public_keys_operation_pack op7) = op7"
  "set_starting_cycle_asset_amount_operation_unpack
     (set_starting_cycle_asset_amount_operation_pack op8) = op8"
  "set_chain_authority_operation_unpack (set_chain_authority_operation_pack op9) = op9"
  by (simp_all add: account_upgrade_operation_unpack_def account_upgrade_operation_pack_def
      account_whitelist_operation_unpack_def account_whitelist_operation_pack_def
      account_transfer_operation_unpack_def account_transfer_operation_pack_def
      tether_accounts_operation_unpack_def tether_accounts_operation_pack_def
      upgrade_account_cycles_operation_unpack_def upgrade_account_cycles_operation_pack_def
      set_roll_back_enabled_operation_unpack_def set_roll_back_enabled_operation_pack_def
      roll_back_public_keys_operation_unpack_def roll_back_public_keys_operation_pack_def
      set_starting_cycle_asset_amount_operation_unpack_def
      set_starting_cycle_asset_amount_operation_pack_def
      set_chain_authority_operation_unpack_def set_chain_authority_operation_pack_def)

text \<open>The three reflections that do not list \<open>extensions\<close> serialize the same for every value
  of that member.\<close>
lemma pack_ignores_extensions:
  "account_create_operation_pack (cr\<lparr>account_create_operation.extensions := e1\<rparr>) =
     account_create_operation_pack cr"
  "account_update_operation_pack (up\<lparr>account_update_operation.extensions := e2\<rparr>) =
     account_update_operation_pack up"
  "change_public_keys_operation_pack (cp\<lparr>change_public_keys_operation.extensions := e3\<rparr>) =
     change_public_keys_operation_pack cp"
  by (simp_all add: account_create_operation_pack_def account_update_operation_pack_def
      change_public_keys_operation_pack_def)

text \<open>What comes back from these three is the operation with its extensions emptied.\<close>
lemma unpack_pack_extensions_not_listed:
  "account_create_operation_unpack (account_create_operation_pack cr) =
     cr\<lparr>account_create_operation.extensions :=
          \<lparr>value = \<lparr>ext.null_ext = None, ext.owner_special_authority = None,
                    ext.active_special_authority = None, buyback_options = None\<rparr>\<rparr>\<rparr>"
  "account_update_operation_unpack (account_update_operation_pack up) =
     up\<lparr>account_update_operation.extensions :=
          \<lparr>value = \<lparr>ext_account_update_operation.null_ext = None,
                    ext_account_update_operation.owner_special_authority = None,
                    ext_account_update_operation.active_special_authority = None\<rparr>\<rparr>\<rparr>"
  "change_public_keys_operation_unpack (change_public_keys_operation_pack cp) =
     cp\<lparr>change_public_keys_operation.extensions := {}\<rparr>"
  by (simp_all add: account_create_operation_unpack_def account_create_operation_pack_def
      account_update_operation_unpack_def account_update_operation_pack_def
      change_public_keys_operation_unpack_def change_public_keys_operation_pack_def)

text \<open>So no deserializer \<open>u\<close> at all can give back every \<open>account_create_operation\<close> from its
  serialized form: two operations that differ in their buyback options serialize the same.\<close>
lemma account_create_operation_pack_not_injective:
  "\<not> (\<forall>op :: ('pk, 'vote, 'auth, 'sa) account_create_operation.
         u (account_create_operation_pack op) = op)"
proof
  assume u: "\<forall>op :: ('pk, 'vote, 'auth, 'sa) account_create_operation.
         u (account_create_operation_pack op) = op"
  fix cr :: "('pk, 'vote, 'auth, 'sa) account_create_operation"
  let ?e1 = "\<lparr>value = \<lparr>ext.null_ext = None, ext.owner_special_authority = None,
                    ext.active_special_authority = None, buyback_options = None\<rparr>\<rparr>"
  let ?e2 = "\<lparr>value = \<lparr>ext.null_ext = None, ext.owner_special_authority = None,
                    ext.active_special_authority = None,
                    buyback_options = Some \<lparr>asset_to_buy_issuer = 0\<rparr>\<rparr>\<rparr>"
  from u have "cr\<lparr>account_create_operation.extensions := ?e1\<rparr> =
        u (account_create_operation_pack (cr\<lparr>account_create_operation.extensions := ?e1\<rparr>))"
    by simp
  also have "\<dots> = u (account_create_operation_pack (cr\<lparr>account_create_operation.extensions := ?e2\<rparr>))"
    by (simp only: pack_ignores_extensions)
  also from u have "\<dots> = cr\<lparr>account_create_operation.extensions := ?e2\<rparr>"
    by simp
  finally have "account_create_operation.extensions (cr\<lparr>account_create_operation.extensions := ?e1\<rparr>) =
                account_create_operation.extensions (cr\<lparr>account_create_operation.extensions := ?e2\<rparr>)"
    by (rule arg_cong)
  then show False by simp
qed

text \<open>C4. Serializing an operation and deserializing the result should give an operation
  equal to the first. The reflections of \<open>account_create_operation\<close>,
  \<open>account_update_operation\<close> and \<open>change_public_keys_operation\<close> do not list the member
  \<open>extensions\<close>: an operation of each kind with a populated extension comes back different,
  with its extension empty.\<close>
theorem unpack_pack_loses_extensions:
  "account_create_operation_unpack (account_create_operation_pack
     \<lparr>account_create_operation.fee = \<lparr>amount = 0, asset_id = 0\<rparr>,
      account_create_operation.kind = 0,
      registrar = 1,
      referrer = 4,
      referrer_percent = 0,
      name = ''alice'',
      account_create_operation.owner = (0 :: nat),
      account_create_operation.active = (0 :: nat),
      options = \<lparr>memo_key = (0 :: nat), voting_account = 5, num_witness = 0,
                 num_committee = 0, votes = ({} :: nat set),
                 account_options.extensions = {}\<rparr>,
      account_create_operation.extensions =
        \<lparr>value = \<lparr>ext.null_ext = None,
                  ext.owner_special_authority = (None :: nat option),
                  ext.active_special_authority = None,
                  buyback_options = Some \<lparr>asset_to_buy_issuer = 7\<rparr>\<rparr>\<rparr>\<rparr>)
   \<noteq> \<lparr>account_create_operation.fee = \<lparr>amount = 0, asset_id = 0\<rparr>,
      account_create_operation.kind = 0,
      registrar = 1,
      referrer = 4,
      referrer_percent = 0,
      name = ''alice'',
      account_create_operation.owner = (0 :: nat),
      account_create_operation.active = (0 :: nat),
      options = \<lparr>memo_key = (0 :: nat), voting_account = 5, num_witness = 0,
                 num_committee = 0, votes = ({} :: nat set),
                 account_options.extensions = {}\<rparr>,
      account_create_operation.extensions =
        \<lparr>value = \<lparr>ext.null_ext = None,
                  ext.owner_special_authority = (None :: nat option),
                  ext.active_special_authority = None,
                  buyback_options = Some \<lparr>asset_to_buy_issuer = 7\<rparr>\<rparr>\<rparr>\<rparr>
   \<and> account_update_operation_unpack (account_update_operation_pack
     \<lparr>account_update_operation.fee = \<lparr>amount = 0, asset_id = 0\<rparr>,
      account_update_operation.account = 5,
      account_update_operation.owner = None,
      account_update_operation.active = (None :: nat option),
      new_options = (None :: (nat, nat) account_options option),
      account_update_operation.extensions =
        \<lparr>value = \<lparr>ext_account_update_operation.null_ext = None,
                  ext_account_update_operation.owner_special_authority = Some (9 :: nat),
                  ext_account_update_operation.active_special_authority = None\<rparr>\<rparr>\<rparr>)
   \<noteq> \<lparr>account_update_operation.fee = \<lparr>amount = 0, asset_id = 0\<rparr>,
      account_update_operation.account = 5,
      account_update_operation.owner = None,
      account_update_operation.active = (None :: nat option),
      new_options = (None :: (nat, nat) account_options option),
      account_update_operation.extensions =
        \<lparr>value = \<lparr>ext_account_update_operation.null_ext = None,
                  ext_account_update_operation.owner_special_authority = Some (9 :: nat),
                  ext_account_update_operation.active_special_authority = None\<rparr>\<rparr>\<rparr>
   \<and> change_public_keys_operation_unpack (change_public_keys_operation_pack
     \<lparr>change_public_keys_operation.fee = \<lparr>amount = 0, asset_id = 0\<rparr>,
      change_public_keys_operation.account = 7,
      change_public_keys_operation.active = Some (1 :: nat),
      change_public_keys_operation.owner = None,
      change_public_keys_operation.extensions = {void_t}\<rparr>)
   \<noteq> \<lparr>change_public_keys_operation.fee = \<lparr>amount = 0, asset_id = 0\<rparr>,
      change_public_keys_operation.account = 7,
      change_public_keys_operation.active = Some (1 :: nat),
      change_public_keys_operation.owner = None,
      change_public_keys_operation.extensions = {void_t}\<rparr>"
  by (simp add: account_create_operation_unpack_def account_create_operation_pack_def
      account_update_operation_unpack_def account_update_operation_pack_def
      change_public_keys_operation_unpack_def change_public_keys_operation_pack_def)

text \<open>The required authorities change with it. The account creation above requires the
  active authority of the registrar 1 and of the buyback issuer 7, and after the round trip
  only that of 1; the account update above requires the owner authority of account 5, and
  after the round trip its active authority.\<close>
lemma unpack_pack_changes_required_authorities:
  "account_create_operation_get_required_active_authorities
     \<lparr>account_create_operation.fee = \<lparr>amount = 0, asset_id = 0\<rparr>,
      account_create_operation.kind = 0,
      registrar = 1,
      referrer = 4,
      referrer_percent = 0,
      name = ''alice'',
      account_create_operation.owner = (0 :: nat),
      account_create_operation.active = (0 :: nat),
      options = \<lparr>memo_key = (0 :: nat), voting_account = 5, num_witness = 0,
                 num_committee = 0, votes = ({} :: nat set),
                 account_options.extensions = {}\<rparr>,
      account_create_operation.extensions =
        \<lparr>value = \<lparr>ext.null_ext = None,
                  ext.owner_special_authority = (None :: nat option),
                  ext.active_special_authority = None,
                  buyback_options = Some \<lparr>asset_to_buy_issuer = 7\<rparr>\<rparr>\<rparr>\<rparr> {} = {1, 7}"
  "account_create_operation_get_required_active_authorities
     (account_create_operation_unpack (account_create_operation_pack
     \<lparr>account_create_operation.fee = \<lparr>amount = 0, asset_id = 0\<rparr>,
      account_create_operation.kind = 0,
      registrar = 1,
      referrer = 4,
      referrer_percent = 0,
      name = ''alice'',
      account_create_operation.owner = (0 :: nat),
      account_create_operation.active = (0 :: nat),
      options = \<lparr>memo_key = (0 :: nat), voting_account = 5, num_witness = 0,
                 num_committee = 0, votes = ({} :: nat set),
                 account_options.extensions = {}\<rparr>,
      account_create_operation.extensions =
        \<lparr>value = \<lparr>ext.null_ext = None,
                  ext.owner_special_authority = (None :: nat option),
                  ext.active_special_authority = None,
                  buyback_options = Some \<lparr>asset_to_buy_issuer = 7\<rparr>\<rparr>\<rparr>\<rparr>)) {} = {1}"
  "account_update_operation_get_required_owner_authorities
     \<lparr>account_update_operation.fee = \<lparr>amount = 0, asset_id = 0\<rparr>,
      account_update_operation.account = 5,
      account_update_operation.owner = None,
      account_update_operation.active = (None :: nat option),
      new_options = (None :: (nat, nat) account_options option),
      account_update_operation.extensions =
        \<lparr>value = \<lparr>ext_account_update_operation.null_ext = None,
                  ext_account_update_operation.owner_special_authority = Some (9 :: nat),
                  ext_account_update_operation.active_special_authority = None\<rparr>\<rparr>\<rparr> {} = {5}"
  "account_update_operation_get_required_owner_authorities
     (account_update_operation_unpack (account_update_operation_pack
     \<lparr>account_update_operation.fee = \<lparr>amount = 0, asset_id = 0\<rparr>,
      account_update_operation.account = 5,
      account_update_operation.owner = None,
      account_update_operation.active = (None :: nat option),
      new_options = (None :: (nat, nat) account_options option),
      account_update_operation.extensions =
        \<lparr>value = \<lparr>ext_account_update_operation.null_ext = None,
                  ext_account_update_operation.owner_special_authority = Some (9 :: nat),
                  ext_account_update_operation.active_special_authority = None\<rparr>\<rparr>\<rparr>)) {} = {}"
  by (simp_all add: account_create_operation_unpack_def account_create_operation_pack_def
      account_update_operation_unpack_def account_update_operation_pack_def
      account_create_operation_get_required_active_authorities_def
      account_update_operation_get_required_owner_authorities_def
      account_update_operation_is_owner_update_def insert_commute)

end
